theory Spec2Isabelle
  imports
    Complex_Main
    "HOL-Library.Finite_Map"
    "HOL-Library.Char_ord"
    "HOL-Library.List_Lexorder"
begin

section \<open>Python values and the primitive operations the lock entity uses\<close>

text \<open>
  The file \<^verbatim>\<open>custom_components/doorman/lock.py\<close> works on what
  \<^verbatim>\<open>response.json()\<close> returns: nested dictionaries, lists, strings, numbers and
  \<^verbatim>\<open>None\<close>. The type \<open>json\<close> holds these values up to Python's \<^verbatim>\<open>==\<close>, so that
  \<^verbatim>\<open>==\<close> and \<^verbatim>\<open>in\<close> on a list are HOL equality and list membership:
  \<^item> numbers are reals: Python compares \<^verbatim>\<open>int\<close> and \<^verbatim>\<open>float\<close> by value, and
    \<^verbatim>\<open>True\<close>, \<^verbatim>\<open>False\<close> are the numbers 1 and 0 there (\<^verbatim>\<open>True == 1\<close>), so the
    booleans are \<open>JNum 1\<close> and \<open>JNum 0\<close>; the non-standard literals \<^verbatim>\<open>NaN\<close> and
    \<^verbatim>\<open>Infinity\<close> are left out, and sums are exact where Python rounds to a double;
  \<^item> a dictionary is a finite map with string keys, compared by its entries whatever
    their order;
  \<^item> a string is a list of characters, one per code point.
\<close>

datatype json =
    JNull
  | JNum real
  | JStr string
  | JArr "json list"
  | JObj "(string, json) fmap"

text \<open>
  The exceptions that the statements of the file can raise. The first five come from the
  interpreter, the last two from the \<^verbatim>\<open>requests\<close> library (\<^verbatim>\<open>requests.get\<close> and
  \<^verbatim>\<open>requests.post\<close> on a timeout or a connection error, \<^verbatim>\<open>response.json()\<close> on a
  body that is not JSON). Nothing in the file catches any of them.
\<close>

datatype py_error =
    KeyError
  | TypeError
  | AttributeError
  | IndexError
  | UnboundLocalError
  | RequestException
  | JSONDecodeError

text \<open>\<^verbatim>\<open>v[k]\<close> for a string key: only a dictionary can be subscripted by a string.\<close>

definition py_getitem :: "json \<Rightarrow> string \<Rightarrow> py_error + json" where
  "py_getitem v k =
     (case v of
        JObj m \<Rightarrow> (case fmlookup m k of None \<Rightarrow> Inl KeyError | Some x \<Rightarrow> Inr x)
      | _ \<Rightarrow> Inl TypeError)"

text \<open>\<^verbatim>\<open>v.get(k)\<close>: only a dictionary has the method; a missing key gives \<^verbatim>\<open>None\<close>.\<close>

definition py_get :: "json \<Rightarrow> string \<Rightarrow> py_error + json" where
  "py_get v k =
     (case v of
        JObj m \<Rightarrow> Inr (case fmlookup m k of None \<Rightarrow> JNull | Some x \<Rightarrow> x)
      | _ \<Rightarrow> Inl AttributeError)"

text \<open>
  \<^verbatim>\<open>for x in v\<close>: a list gives its elements, a string its characters, a dictionary its
  keys; \<^verbatim>\<open>None\<close> and numbers are not iterable. Python walks the keys of a dictionary in
  insertion order, which a finite map does not record; the keys are listed in sorted
  order here. Both loops of the file call \<^verbatim>\<open>.get\<close> on the element first, which fails on
  any key, so the order of the keys is not observable.
\<close>

definition py_iter :: "json \<Rightarrow> py_error + json list" where
  "py_iter v =
     (case v of
        JArr xs \<Rightarrow> Inr xs
      | JStr s \<Rightarrow> Inr (map (\<lambda>c. JStr [c]) s)
      | JObj m \<Rightarrow> Inr (map JStr (sorted_list_of_fset (fmdom m)))
      | _ \<Rightarrow> Inl TypeError)"

text \<open>
  \<^verbatim>\<open>v[0]\<close>: the first element of a list or the first character of a string, an
  \<^verbatim>\<open>IndexError\<close> when it is empty; a decoded dictionary has string keys only, so the key
  \<^verbatim>\<open>0\<close> is missing; \<^verbatim>\<open>None\<close> and numbers are not subscriptable.
\<close>

definition py_first :: "json \<Rightarrow> py_error + json" where
  "py_first v =
     (case v of
        JArr xs \<Rightarrow> (case xs of [] \<Rightarrow> Inl IndexError | x # _ \<Rightarrow> Inr x)
      | JStr s \<Rightarrow> (case s of [] \<Rightarrow> Inl IndexError | c # _ \<Rightarrow> Inr (JStr [c]))
      | JObj m \<Rightarrow> Inl KeyError
      | _ \<Rightarrow> Inl TypeError)"

text \<open>Lists and dictionaries cannot be hashed, so they cannot be looked up in a \<^verbatim>\<open>dict\<close>.\<close>

definition py_hashable :: "json \<Rightarrow> bool" where
  "py_hashable v = (case v of JArr _ \<Rightarrow> False | JObj _ \<Rightarrow> False | _ \<Rightarrow> True)"

text \<open>Lookup of a hashable value in a table whose keys are strings.\<close>

definition dict_lookup :: "(string \<times> string) list \<Rightarrow> json \<Rightarrow> string option" where
  "dict_lookup d k = (case k of JStr s \<Rightarrow> map_of d s | _ \<Rightarrow> None)"

section \<open>The module constants\<close>

definition STATE_ENUM :: "(string \<times> string) list" where
  "STATE_ENUM =
     [(''1816'', ''device_status.lock''),
      (''1815'', ''device_status.unlock''),
      (''1807'', ''device_status.lock''),
      (''1801'', ''device_status.unlock''),
      (''1802'', ''device_status.unlock'')]"

definition NON_LOCK_EVENT :: "(string \<times> string) list" where
  "NON_LOCK_EVENT = [(''1602'', ''device_status.lock'')]"

definition LOCK_STATE :: string where
  "LOCK_STATE = ''device_status.lock''"

definition UNLOCK_STATE :: string where
  "UNLOCK_STATE = ''device_status.unlock''"

definition FAILED_STATE :: string where
  "FAILED_STATE = ''failed''"

section \<open>The world outside the entity\<close>

text \<open>
  The entity reads the clock and sends HTTP requests. The world answers both from two
  tables indexed by the number of such actions done so far (\<open>tick\<close>), so that the
  clock may move and the server may change its answer between any two actions. The
  requests sent and the states handed to the host framework are recorded.
\<close>

datatype request =
    PostLogin string string string
  | GetState json
  | GetHistory json

text \<open>
  What a request comes back with: an exception of the transport, or a response with its
  status code and its body decoded as JSON (\<open>None\<close> when the body is not JSON).
\<close>

datatype reply =
    Raises
  | Response int "json option"

record world =
  clock :: "nat \<Rightarrow> real"
  server :: "nat \<Rightarrow> request \<Rightarrow> reply"
  tick :: nat
  sent :: "request list"
  written :: "json list"

text \<open>\<^verbatim>\<open>datetime.timestamp(datetime.now())\<close>\<close>

definition read_clock :: "world \<Rightarrow> real \<times> world" where
  "read_clock w = (clock w (tick w), w\<lparr>tick := Suc (tick w)\<rparr>)"

text \<open>\<^verbatim>\<open>requests.get\<close> and \<^verbatim>\<open>requests.post\<close>\<close>

definition http :: "request \<Rightarrow> world \<Rightarrow> reply \<times> world" where
  "http r w = (server w (tick w) r, w\<lparr>tick := Suc (tick w), sent := sent w @ [r]\<rparr>)"

section \<open>Login\<close>

text \<open>
  \<^verbatim>\<open>login(username, password, initial_token)\<close>: the status code of the response is not
  looked at; the decoded body gets the key \<^verbatim>\<open>"loggedin"\<close>, which only a dictionary
  accepts.
\<close>

definition login ::
  "string \<Rightarrow> string \<Rightarrow> string \<Rightarrow> world \<Rightarrow> (py_error + (string, json) fmap) \<times> world" where
  "login usr pwd tok w =
     (case http (PostLogin usr pwd tok) w of
        (Raises, w1) \<Rightarrow> (Inl RequestException, w1)
      | (Response code body, w1) \<Rightarrow>
          (case body of
             None \<Rightarrow> (Inl JSONDecodeError, w1)
           | Some data \<Rightarrow>
               (case read_clock w1 of
                  (timestamp, w2) \<Rightarrow>
                    (case data of
                       JObj m \<Rightarrow> (Inr (fmupd ''loggedin'' (JNum timestamp) m), w2)
                     | _ \<Rightarrow> (Inl TypeError, w2)))))"

section \<open>The lock entity\<close>

text \<open>
  The fields of \<^verbatim>\<open>Doorman\<close>. \<^verbatim>\<open>login_data\<close> is always what \<^verbatim>\<open>login\<close> returned, a
  dictionary. \<^verbatim>\<open>_state\<close> and \<^verbatim>\<open>_name\<close> hold whatever the vendor sent.
\<close>

record doorman =
  state :: json
  username :: string
  password :: string
  login_data :: "(string, json) fmap"
  device_id :: json
  initial_token :: string
  name :: json
  report_ids :: "json list"

definition init ::
  "json \<Rightarrow> (string, json) fmap \<Rightarrow> string \<Rightarrow> string \<Rightarrow> json \<Rightarrow> json \<Rightarrow> string \<Rightarrow> doorman" where
  "init st ld usr pwd nm dev tok =
     \<lparr>state = st, username = usr, password = pwd, login_data = ld, device_id = dev,
      initial_token = tok, name = nm, report_ids = []\<rparr>"

definition is_locked :: "doorman \<Rightarrow> bool" where
  "is_locked self = (state self = JStr LOCK_STATE)"

text \<open>
  \<^verbatim>\<open>lock\<close> and \<^verbatim>\<open>unlock\<close>: the body of each is its docstring and a comment. The keyword
  arguments are not read.
\<close>

definition lock ::
  "doorman \<Rightarrow> (string \<times> json) list \<Rightarrow> world \<Rightarrow> (py_error + unit) \<times> doorman \<times> world" where
  "lock self kwargs w = (Inr (), self, w)"

definition unlock ::
  "doorman \<Rightarrow> (string \<times> json) list \<Rightarrow> world \<Rightarrow> (py_error + unit) \<times> doorman \<times> world" where
  "unlock self kwargs w = (Inr (), self, w)"

text \<open>
  \<^verbatim>\<open>validate_access_token\<close>: the sum and the comparison with a float need two numbers;
  any other pair of values ends in a \<^verbatim>\<open>TypeError\<close>, at the \<^verbatim>\<open>+\<close> or at the \<^verbatim>\<open><=\<close>.
\<close>

definition validate_access_token ::
  "doorman \<Rightarrow> world \<Rightarrow> (py_error + unit) \<times> doorman \<times> world" where
  "validate_access_token self w =
     (case read_clock w of
        (timestamp, w1) \<Rightarrow>
          (case fmlookup (login_data self) ''loggedin'' of
             None \<Rightarrow> (Inl KeyError, self, w1)
           | Some loggedin \<Rightarrow>
               (case fmlookup (login_data self) ''expires_in'' of
                  None \<Rightarrow> (Inl KeyError, self, w1)
                | Some expires_in \<Rightarrow>
                    (case loggedin of
                       JNum a \<Rightarrow>
                         (case expires_in of
                            JNum b \<Rightarrow>
                              if a + b \<le> timestamp - 1000 then
                                (case login (username self) (password self)
                                        (initial_token self) w1 of
                                   (Inl e, w2) \<Rightarrow> (Inl e, self, w2)
                                 | (Inr ld, w2) \<Rightarrow> (Inr (), self\<lparr>login_data := ld\<rparr>, w2))
                              else (Inr (), self, w1)
                          | _ \<Rightarrow> (Inl TypeError, self, w1))
                     | _ \<Rightarrow> (Inl TypeError, self, w1)))))"

text \<open>
  The loop of \<^verbatim>\<open>get_state_history\<close> over the events, with the list \<^verbatim>\<open>self.report_ids\<close>
  and the local list \<^verbatim>\<open>states\<close> as accumulators. The identifier is appended before the
  two table lookups, so it stays in the list when a lookup raises.
\<close>

fun get_state_history_loop ::
  "json list \<Rightarrow> json list \<Rightarrow> json list \<Rightarrow> (py_error + json list) \<times> json list" where
  "get_state_history_loop [] ids states = (Inr states, ids)"
| "get_state_history_loop (event # events) ids states =
     (case py_get event ''type'' of
        Inl e \<Rightarrow> (Inl e, ids)
      | Inr device_type \<Rightarrow>
          if device_type = JStr ''device_type.door_lock'' then
            (case py_get event ''report_id'' of
               Inl e \<Rightarrow> (Inl e, ids)
             | Inr report_id \<Rightarrow>
                 if report_id \<notin> set ids then
                   (case py_get event ''event_type'' of
                      Inl e \<Rightarrow> (Inl e, ids)
                    | Inr event_type \<Rightarrow>
                        if \<not> py_hashable event_type then (Inl TypeError, ids @ [report_id])
                        else if dict_lookup NON_LOCK_EVENT event_type \<noteq> None then
                          get_state_history_loop events (ids @ [report_id]) states
                        else
                          (case dict_lookup STATE_ENUM event_type of
                             None \<Rightarrow> (Inl KeyError, ids @ [report_id])
                           | Some st \<Rightarrow>
                               get_state_history_loop events (ids @ [report_id])
                                 (states @ [JStr st])))
                 else get_state_history_loop events ids states)
          else get_state_history_loop events ids states)"

text \<open>
  \<^verbatim>\<open>get_state_history\<close>: \<^verbatim>\<open>states\<close> is bound inside the branch of status code 200
  only, and returned after it.
\<close>

definition get_state_history ::
  "doorman \<Rightarrow> world \<Rightarrow> (py_error + json list) \<times> doorman \<times> world" where
  "get_state_history self w =
     (case validate_access_token self w of
        (Inl e, self1, w1) \<Rightarrow> (Inl e, self1, w1)
      | (Inr _, self1, w1) \<Rightarrow>
          (case fmlookup (login_data self1) ''access_token'' of
             None \<Rightarrow> (Inl KeyError, self1, w1)
           | Some access_token \<Rightarrow>
               (case http (GetHistory access_token) w1 of
                  (Raises, w2) \<Rightarrow> (Inl RequestException, self1, w2)
                | (Response status_code body, w2) \<Rightarrow>
                    if status_code = 200 then
                      (case body of
                         None \<Rightarrow> (Inl JSONDecodeError, self1, w2)
                       | Some data \<Rightarrow>
                           (case py_getitem data ''message'' of
                              Inl e \<Rightarrow> (Inl e, self1, w2)
                            | Inr status \<Rightarrow>
                                if status = JStr ''OK!'' then
                                  (case py_get data ''data'' of
                                     Inl e \<Rightarrow> (Inl e, self1, w2)
                                   | Inr payload \<Rightarrow>
                                       (case py_iter payload of
                                          Inl e \<Rightarrow> (Inl e, self1, w2)
                                        | Inr events \<Rightarrow>
                                            (case get_state_history_loop events
                                                    (report_ids self1) [] of
                                               (r, ids) \<Rightarrow>
                                                 (r, self1\<lparr>report_ids := ids\<rparr>, w2))))
                                else (Inr [], self1, w2)))
                    else (Inl UnboundLocalError, self1, w2))))"

text \<open>
  The loop of \<^verbatim>\<open>get_state\<close> over the devices: the three fields of a device are read
  before its name is compared. Falling out of the loop returns \<^verbatim>\<open>None\<close>.
\<close>

fun get_state_loop :: "json \<Rightarrow> json list \<Rightarrow> py_error + json" where
  "get_state_loop nm [] = Inr JNull"
| "get_state_loop nm (device # devices) =
     (case py_get device ''device_id'' of
        Inl e \<Rightarrow> Inl e
      | Inr dev \<Rightarrow>
          (case py_get device ''name'' of
             Inl e \<Rightarrow> Inl e
           | Inr dev_name \<Rightarrow>
               (case py_get device ''status_open'' of
                  Inl e \<Rightarrow> Inl e
                | Inr status_open \<Rightarrow>
                    (case py_first status_open of
                       Inl e \<Rightarrow> Inl e
                     | Inr st \<Rightarrow>
                         if dev_name = nm then Inr st else get_state_loop nm devices))))"

text \<open>
  \<^verbatim>\<open>get_state\<close>: the two branches that log an error end the method without a
  \<^verbatim>\<open>return\<close>, and so does the loop when no device matches: the result is \<^verbatim>\<open>None\<close>.
\<close>

definition get_state :: "doorman \<Rightarrow> world \<Rightarrow> (py_error + json) \<times> doorman \<times> world" where
  "get_state self w =
     (case validate_access_token self w of
        (Inl e, self1, w1) \<Rightarrow> (Inl e, self1, w1)
      | (Inr _, self1, w1) \<Rightarrow>
          (case fmlookup (login_data self1) ''access_token'' of
             None \<Rightarrow> (Inl KeyError, self1, w1)
           | Some access_token \<Rightarrow>
               (case http (GetState access_token) w1 of
                  (Raises, w2) \<Rightarrow> (Inl RequestException, self1, w2)
                | (Response status_code body, w2) \<Rightarrow>
                    if status_code = 200 then
                      (case body of
                         None \<Rightarrow> (Inl JSONDecodeError, self1, w2)
                       | Some data \<Rightarrow>
                           (case py_getitem data ''message'' of
                              Inl e \<Rightarrow> (Inl e, self1, w2)
                            | Inr status \<Rightarrow>
                                if status = JStr ''OK!'' then
                                  (case py_get data ''data'' of
                                     Inl e \<Rightarrow> (Inl e, self1, w2)
                                   | Inr payload \<Rightarrow>
                                       (case py_get payload ''device_status'' of
                                          Inl e \<Rightarrow> (Inl e, self1, w2)
                                        | Inr device_status \<Rightarrow>
                                            (case py_iter device_status of
                                               Inl e \<Rightarrow> (Inl e, self1, w2)
                                             | Inr devices \<Rightarrow>
                                                 (get_state_loop (name self1) devices,
                                                  self1, w2))))
                                else (Inr JNull, self1, w2)))
                    else (Inr JNull, self1, w2))))"

text \<open>
  \<^verbatim>\<open>self.async_write_ha_state()\<close> belongs to the host framework, which reads the entity
  and publishes it; the world records the state the entity holds at the call.
\<close>

definition async_write_ha_state :: "doorman \<Rightarrow> world \<Rightarrow> world" where
  "async_write_ha_state self w = w\<lparr>written := written w @ [state self]\<rparr>"

text \<open>The loop of \<^verbatim>\<open>update\<close> over the states that the history gave.\<close>

fun update_loop :: "json list \<Rightarrow> doorman \<Rightarrow> world \<Rightarrow> doorman \<times> world" where
  "update_loop [] self w = (self, w)"
| "update_loop (st # states) self w =
     update_loop states (self\<lparr>state := st\<rparr>) (async_write_ha_state (self\<lparr>state := st\<rparr>) w)"

text \<open>\<^verbatim>\<open>update\<close>: the result of \<^verbatim>\<open>get_state\<close> is stored whatever it is.\<close>

definition update :: "doorman \<Rightarrow> world \<Rightarrow> (py_error + unit) \<times> doorman \<times> world" where
  "update self w =
     (case get_state_history self w of
        (Inl e, self1, w1) \<Rightarrow> (Inl e, self1, w1)
      | (Inr states, self1, w1) \<Rightarrow>
          (case update_loop states self1 w1 of
             (self2, w2) \<Rightarrow>
               (case get_state self2 w2 of
                  (Inl e, self3, w3) \<Rightarrow> (Inl e, self3, w3)
                | (Inr st, self3, w3) \<Rightarrow> (Inr (), self3\<lparr>state := st\<rparr>, w3))))"

section \<open>Concrete inputs\<close>

text \<open>
  Values on which the functions are evaluated below: a history event of a door lock, a
  stored session, an entity as \<^verbatim>\<open>async_setup_platform\<close> builds it, the envelopes of the
  two endpoints, a device entry, and a world whose clock stands still and whose server
  gives one fixed reply per endpoint.
\<close>

definition door_event :: "json \<Rightarrow> string \<Rightarrow> json" where
  "door_event report_id event_type =
     JObj (fmap_of_list
       [(''type'', JStr ''device_type.door_lock''),
        (''report_id'', report_id),
        (''event_type'', JStr event_type)])"

definition session :: "real \<Rightarrow> real \<Rightarrow> (string, json) fmap" where
  "session loggedin expires_in =
     fmap_of_list
       [(''access_token'', JStr ''token-1''),
        (''expires_in'', JNum expires_in),
        (''loggedin'', JNum loggedin)]"

definition front_door :: "json \<Rightarrow> (string, json) fmap \<Rightarrow> doorman" where
  "front_door st ld =
     init st ld ''user'' ''secret'' (JStr ''Front door'') (JStr ''device-1'') ''bootstrap''"

definition history_body :: "json list \<Rightarrow> json" where
  "history_body events =
     JObj (fmap_of_list [(''message'', JStr ''OK!''), (''data'', JArr events)])"

definition device_entry :: "string \<Rightarrow> string \<Rightarrow> json" where
  "device_entry nm st =
     JObj (fmap_of_list
       [(''device_id'', JStr ''device-1''),
        (''name'', JStr nm),
        (''status_open'', JArr [JStr st])])"

definition status_body :: "json list \<Rightarrow> json" where
  "status_body devices =
     JObj (fmap_of_list
       [(''message'', JStr ''OK!''),
        (''data'', JObj (fmap_of_list [(''device_status'', JArr devices)]))])"

definition still_world :: "real \<Rightarrow> reply \<Rightarrow> reply \<Rightarrow> reply \<Rightarrow> world" where
  "still_world now login_reply history_reply state_reply =
     \<lparr>clock = (\<lambda>_. now),
      server = (\<lambda>_ r. case r of
                         PostLogin _ _ _ \<Rightarrow> login_reply
                       | GetHistory _ \<Rightarrow> history_reply
                       | GetState _ \<Rightarrow> state_reply),
      tick = 0, sent = [], written = []\<rparr>"

section \<open>Evaluation on concrete values\<close>

text \<open>
  The equations that evaluate the primitive operations, the concrete inputs, the actions
  on the world and the methods, for the theorems about concrete runs.
\<close>

lemmas eval_simps = py_get_def py_getitem_def py_iter_def py_first_def py_hashable_def
  dict_lookup_def STATE_ENUM_def NON_LOCK_EVENT_def fmlookup_of_list

lemmas fixture_simps = door_event_def session_def front_door_def init_def history_body_def
  device_entry_def status_body_def still_world_def

lemmas io_simps = read_clock_def http_def login_def validate_access_token_def

lemmas run_simps = fixture_simps io_simps eval_simps get_state_history_def get_state_def
  update_def async_write_ha_state_def

section \<open>The world and the fields that a method leaves alone\<close>

text \<open>
  \<^verbatim>\<open>login\<close> sends a request and reads the clock; it does not touch the tables of
  the world or what was published.
\<close>

lemma login_frame:
  assumes "login usr pwd tok w = (r, w')"
  shows "clock w' = clock w \<and> server w' = server w \<and> written w' = written w"
  using assms
  by (auto simp: login_def http_def read_clock_def split: reply.splits option.splits json.splits)

text \<open>
  \<^verbatim>\<open>validate_access_token\<close> writes no field of the entity but \<^verbatim>\<open>login_data\<close>.
\<close>

lemma validate_access_token_frame:
  assumes "validate_access_token self w = (r, self', w')"
  shows "self' = self\<lparr>login_data := login_data self'\<rparr> \<and>
         clock w' = clock w \<and> server w' = server w \<and> written w' = written w"
proof -
  obtain t w1 where rc: "read_clock w = (t, w1)"
    by (cases "read_clock w")
  then have w1: "clock w1 = clock w \<and> server w1 = server w \<and> written w1 = written w"
    by (auto simp: read_clock_def)
  obtain lr w2 where lg: "login (username self) (password self) (initial_token self) w1 = (lr, w2)"
    by (cases "login (username self) (password self) (initial_token self) w1")
  from login_frame [OF lg] w1
  have w2: "clock w2 = clock w \<and> server w2 = server w \<and> written w2 = written w"
    by simp
  from assms rc lg w1 w2 show ?thesis
    by (auto simp: validate_access_token_def
        split: option.splits json.splits if_splits sum.splits)
qed

text \<open>
  The loop of \<^verbatim>\<open>update\<close> writes \<^verbatim>\<open>_state\<close> only, and publishes.
\<close>

lemma update_loop_frame:
  "update_loop sts self w = (self', w') \<Longrightarrow>
   self' = self\<lparr>state := state self'\<rparr> \<and> w' = w\<lparr>written := written w'\<rparr>"
proof (induction sts arbitrary: self w)
  case Nil
  then show ?case by simp
next
  case (Cons st sts)
  from Cons.prems have
    "update_loop sts (self\<lparr>state := st\<rparr>) (async_write_ha_state (self\<lparr>state := st\<rparr>) w) = (self', w')"
    by simp
  from Cons.IH [OF this] show ?case
    by (simp add: async_write_ha_state_def)
qed

text \<open>
  \<^verbatim>\<open>get_state_history\<close> leaves the name and the state of the entity alone.
\<close>

lemma get_state_history_frame:
  assumes "get_state_history self w = (r, self', w')"
  shows "name self' = name self \<and> state self' = state self"
proof -
  obtain vr self1 w1 where v: "validate_access_token self w = (vr, self1, w1)"
    by (cases "validate_access_token self w")
  from validate_access_token_frame [OF v]
  have "self1 = self\<lparr>login_data := login_data self1\<rparr>" by simp
  then have n: "name self1 = name self \<and> state self1 = state self"
    by (cases self, cases self1) auto
  from assms v n show ?thesis
    by (auto simp: get_state_history_def http_def
        split: sum.splits option.splits reply.splits if_splits prod.splits)
qed

text \<open>
  The name that the status fetch of \<^verbatim>\<open>update\<close> compares with is the one stored
  when the cycle began.
\<close>

lemma stored_name:
  assumes hist: "get_state_history self w = (r, self1, w1)"
    and pub: "update_loop states self1 w1 = (self2, w2)"
    and val: "validate_access_token self2 w2 = (r', self3, w3)"
  shows "name self3 = name self"
proof -
  have "name self1 = name self"
    using get_state_history_frame [OF hist] by simp
  moreover have "name self2 = name self1"
    using update_loop_frame [OF pub] by (cases self1, cases self2) auto
  moreover have "name self3 = name self2"
    using validate_access_token_frame [OF val] by (cases self2, cases self3) auto
  ultimately show ?thesis by simp
qed

section \<open>The session\<close>

text \<open>
  What \<^verbatim>\<open>validate_access_token\<close> does with a session of two numbers. It keeps the
  session as long as the clock is less than 1000 seconds past \<^verbatim>\<open>loggedin + expires_in\<close>.
\<close>

lemma validate_access_token_fresh:
  assumes "fmlookup (login_data self) ''loggedin'' = Some (JNum a)"
    and "fmlookup (login_data self) ''expires_in'' = Some (JNum b)"
    and "clock w (tick w) - 1000 < a + b"
  shows "validate_access_token self w = (Inr (), self, w\<lparr>tick := Suc (tick w)\<rparr>)"
  using assms by (simp add: validate_access_token_def read_clock_def)

text \<open>
  From 1000 seconds past the expiry on, it sends one login request and, when the reply
  decodes to a dictionary, stores that dictionary with the time of the login.
\<close>

lemma validate_access_token_stale:
  assumes "fmlookup (login_data self) ''loggedin'' = Some (JNum a)"
    and "fmlookup (login_data self) ''expires_in'' = Some (JNum b)"
    and "a + b \<le> clock w (tick w) - 1000"
    and "server w (Suc (tick w)) (PostLogin (username self) (password self) (initial_token self)) =
           Response code (Some (JObj m))"
  shows "validate_access_token self w =
     (Inr (),
      self\<lparr>login_data := fmupd ''loggedin'' (JNum (clock w (Suc (Suc (tick w))))) m\<rparr>,
      w\<lparr>tick := Suc (Suc (Suc (tick w))),
        sent := sent w @ [PostLogin (username self) (password self) (initial_token self)]\<rparr>)"
  using assms by (simp add: validate_access_token_def read_clock_def login_def http_def)

text \<open>
  Claim C1. A session whose \<^verbatim>\<open>loggedin + expires_in\<close> lies in the past is to be
  replaced by one new login. The code compares the expiry with the clock minus 1000
  seconds: for the session acquired at time 0 that expires at 3600, checked at time 4000
  (400 seconds after the expiry), \<^verbatim>\<open>validate_access_token\<close> returns with the session as
  it was and no request sent.
\<close>

theorem validate_access_token_keeps_expired_session:
  "(0::real) + 3600 < 4000 \<and>
   validate_access_token (front_door (JStr ''device_status.lock'') (session 0 3600))
     (still_world 4000 (Response 200 (Some (JObj (session 0 3600)))) Raises Raises) =
   (Inr (), front_door (JStr ''device_status.lock'') (session 0 3600),
    (still_world 4000 (Response 200 (Some (JObj (session 0 3600)))) Raises Raises)
      \<lparr>tick := 1\<rparr>) \<and>
   sent (snd (snd (validate_access_token
     (front_door (JStr ''device_status.lock'') (session 0 3600))
     (still_world 4000 (Response 200 (Some (JObj (session 0 3600)))) Raises Raises)))) = []"
  by (simp add: run_simps)

section \<open>The history fetch\<close>

text \<open>
  \<^verbatim>\<open>get_state_history\<close> after a validation that returned, with a token in the session
  and a response from the server: what is left to do depends on the response only.
\<close>

lemma get_state_history_request:
  assumes "validate_access_token self w = (Inr (), self1, w1)"
    and "fmlookup (login_data self1) ''access_token'' = Some access_token"
    and "server w1 (tick w1) (GetHistory access_token) = Response status_code body"
  shows "get_state_history self w =
     (let w2 = w1\<lparr>tick := Suc (tick w1), sent := sent w1 @ [GetHistory access_token]\<rparr> in
      if status_code = 200 then
        (case body of
           None \<Rightarrow> (Inl JSONDecodeError, self1, w2)
         | Some data \<Rightarrow>
             (case py_getitem data ''message'' of
                Inl e \<Rightarrow> (Inl e, self1, w2)
              | Inr status \<Rightarrow>
                  if status = JStr ''OK!'' then
                    (case py_get data ''data'' of
                       Inl e \<Rightarrow> (Inl e, self1, w2)
                     | Inr payload \<Rightarrow>
                         (case py_iter payload of
                            Inl e \<Rightarrow> (Inl e, self1, w2)
                          | Inr events \<Rightarrow>
                              (case get_state_history_loop events (report_ids self1) [] of
                                 (r, ids) \<Rightarrow> (r, self1\<lparr>report_ids := ids\<rparr>, w2))))
                  else (Inr [], self1, w2)))
      else (Inl UnboundLocalError, self1, w2))"
  using assms by (simp add: get_state_history_def http_def Let_def)

text \<open>
  Claim C6. A history response that is not a success is to give the empty sequence.
  With the status code 200 and a marker other than \<^verbatim>\<open>"OK!"\<close> it does (lemma
  \<open>get_state_history_request\<close>). With any other status code the variable \<^verbatim>\<open>states\<close>
  was never bound when it is returned: on a response with status code 500,
  \<^verbatim>\<open>get_state_history\<close> raises \<^verbatim>\<open>UnboundLocalError\<close>, and so does \<^verbatim>\<open>update\<close>,
  before the status is fetched.
\<close>

theorem history_non_200_raises:
  "get_state_history (front_door (JStr ''device_status.lock'') (session 0 3600))
     (still_world 100 Raises (Response 500 None) Raises) =
   (Inl UnboundLocalError, front_door (JStr ''device_status.lock'') (session 0 3600),
    (still_world 100 Raises (Response 500 None) Raises)
      \<lparr>tick := 2, sent := [GetHistory (JStr ''token-1'')]\<rparr>) \<and>
   fst (update (front_door (JStr ''device_status.lock'') (session 0 3600))
     (still_world 100 Raises (Response 500 None)
        (Response 200 (Some (status_body
           [device_entry ''Front door'' ''device_status.unlock'']))))) = Inl UnboundLocalError"
  by (simp add: run_simps)

section \<open>The history loop\<close>

text \<open>
  Every state that the mapping table gives is one of the two lock states.
\<close>

lemma dict_lookup_STATE_ENUM_range:
  "dict_lookup STATE_ENUM k = Some st \<Longrightarrow> st = LOCK_STATE \<or> st = UNLOCK_STATE"
  by (cases k) (auto simp: dict_lookup_def STATE_ENUM_def LOCK_STATE_def UNLOCK_STATE_def
      split: if_splits)

text \<open>
  The loop appends states of the mapping table only.
\<close>

lemma loop_states_range:
  "get_state_history_loop evs ids sts = (Inr out, ids') \<Longrightarrow>
   set out \<subseteq> set sts \<union> {JStr LOCK_STATE, JStr UNLOCK_STATE}"
proof (induction evs arbitrary: ids sts)
  case Nil
  then show ?case by auto
next
  case (Cons e evs)
  then show ?case
    by (fastforce split: sum.splits if_splits option.splits dest: dict_lookup_STATE_ENUM_range)
qed

text \<open>
  The list of seen identifiers only grows, also when the loop raises.
\<close>

lemma loop_ids_mono: "x \<in> set ids \<Longrightarrow> x \<in> set (snd (get_state_history_loop evs ids sts))"
proof (induction evs arbitrary: ids sts)
  case Nil
  then show ?case by simp
next
  case (Cons e evs)
  have b: "x \<in> set (snd (get_state_history_loop evs (ids @ [r]) s))" for r s
    using Cons.prems by (intro Cons.IH) simp
  show ?case
    using b Cons.IH [of ids sts] Cons.prems
    by (auto split: sum.splits option.splits)
qed

text \<open>
  An event that is not of a door lock, or whose identifier is seen, is passed over.
\<close>

lemma loop_seen_skip:
  assumes "py_get e ''type'' = Inr ty"
    and "ty = JStr ''device_type.door_lock'' \<Longrightarrow> \<exists>r. py_get e ''report_id'' = Inr r \<and> r \<in> set ids"
  shows "get_state_history_loop (e # evs) ids sts = get_state_history_loop evs ids sts"
  using assms by auto

text \<open>
  A batch with nothing new returns the states it was given and leaves the list alone.
\<close>

lemma loop_all_seen:
  assumes "\<forall>e \<in> set evs. \<exists>ty. py_get e ''type'' = Inr ty \<and>
             (ty = JStr ''device_type.door_lock'' \<longrightarrow>
                (\<exists>r. py_get e ''report_id'' = Inr r \<and> r \<in> set ids))"
  shows "get_state_history_loop evs ids sts = (Inr sts, ids)"
  using assms
proof (induction evs)
  case Nil
  then show ?case by simp
next
  case (Cons e evs)
  from Cons.prems obtain ty where ty: "py_get e ''type'' = Inr ty"
    and seen: "ty = JStr ''device_type.door_lock'' \<Longrightarrow>
                 \<exists>r. py_get e ''report_id'' = Inr r \<and> r \<in> set ids"
    by auto
  have "get_state_history_loop (e # evs) ids sts = get_state_history_loop evs ids sts"
    using ty seen by (rule loop_seen_skip)
  with Cons show ?case by simp
qed

text \<open>
  When the loop returns, it went through the first event without raising.
\<close>

lemma loop_Cons_success:
  assumes "get_state_history_loop (e # evs) ids sts = (Inr out, ids1)"
  shows "\<exists>ids' sts'. get_state_history_loop evs ids' sts' = (Inr out, ids1) \<and>
           set ids \<subseteq> set ids' \<and>
           (\<exists>ty. py_get e ''type'' = Inr ty \<and>
              (ty = JStr ''device_type.door_lock'' \<longrightarrow>
                 (\<exists>r. py_get e ''report_id'' = Inr r \<and> r \<in> set ids')))"
proof -
  from assms obtain ty where ty: "py_get e ''type'' = Inr ty"
    by (auto split: sum.splits)
  show ?thesis
  proof (cases "ty = JStr ''device_type.door_lock''")
    case False
    with assms ty show ?thesis by auto
  next
    case door: True
    with assms ty obtain r where r: "py_get e ''report_id'' = Inr r"
      by (auto split: sum.splits)
    show ?thesis
    proof (cases "r \<in> set ids")
      case True
      with assms ty door r show ?thesis by auto
    next
      case False
      with assms ty door r obtain sts' where
        "get_state_history_loop evs (ids @ [r]) sts' = (Inr out, ids1)"
        by (auto split: sum.splits option.splits if_splits)
      then show ?thesis
        using ty r by (intro exI [of _ "ids @ [r]"] exI [of _ sts']) auto
    qed
  qed
qed

text \<open>
  After a run that returned, every door-lock event of the batch is in the list.
\<close>

lemma loop_marks_seen:
  assumes "get_state_history_loop evs ids sts = (Inr out, ids1)"
  shows "\<forall>e \<in> set evs. \<exists>ty. py_get e ''type'' = Inr ty \<and>
             (ty = JStr ''device_type.door_lock'' \<longrightarrow>
                (\<exists>r. py_get e ''report_id'' = Inr r \<and> r \<in> set ids1))"
  using assms
proof (induction evs arbitrary: ids sts)
  case Nil
  then show ?case by simp
next
  case (Cons e evs)
  from loop_Cons_success [OF Cons.prems]
  obtain ids' sts' where step: "get_state_history_loop evs ids' sts' = (Inr out, ids1)"
    and hd: "\<exists>ty. py_get e ''type'' = Inr ty \<and>
             (ty = JStr ''device_type.door_lock'' \<longrightarrow>
                (\<exists>r. py_get e ''report_id'' = Inr r \<and> r \<in> set ids'))"
    by blast
  have tl: "\<forall>e \<in> set evs. \<exists>ty. py_get e ''type'' = Inr ty \<and>
             (ty = JStr ''device_type.door_lock'' \<longrightarrow>
                (\<exists>r. py_get e ''report_id'' = Inr r \<and> r \<in> set ids1))"
    using step by (rule Cons.IH)
  have "set ids' \<subseteq> set ids1"
    using loop_ids_mono [of _ ids' evs sts'] step by auto
  with hd tl show ?case by auto
qed

section \<open>Properties of the reconciliation\<close>

text \<open>
  Claim C2. An event whose code is in neither table is to be skipped, and the events
  after it processed. The lookup \<^verbatim>\<open>STATE_ENUM[event_type]\<close> is not guarded: on the batch
  of an event with code \<^verbatim>\<open>"9999"\<close> followed by an event with code \<^verbatim>\<open>"1801"\<close>, the loop
  raises \<^verbatim>\<open>KeyError\<close> at the first event, whose identifier is in the list by then; the
  second event is not processed, and \<^verbatim>\<open>update\<close> raises the same exception.
\<close>

theorem unrecognized_code_aborts_batch:
  "get_state_history_loop
     [door_event (JNum 1) ''9999'', door_event (JNum 2) ''1801''] [] [] =
     (Inl KeyError, [JNum 1]) \<and>
   fst (update (front_door (JStr ''device_status.lock'') (session 0 3600))
     (still_world 100 Raises
        (Response 200 (Some (history_body
           [door_event (JNum 1) ''9999'', door_event (JNum 2) ''1801''])))
        (Response 200 (Some (status_body
           [device_entry ''Front door'' ''device_status.unlock'']))))) = Inl KeyError \<and>
   report_ids (fst (snd (update (front_door (JStr ''device_status.lock'') (session 0 3600))
     (still_world 100 Raises
        (Response 200 (Some (history_body
           [door_event (JNum 1) ''9999'', door_event (JNum 2) ''1801''])))
        (Response 200 (Some (status_body
           [device_entry ''Front door'' ''device_status.unlock''])))))))
     = [JNum 1]"
  by (simp add: run_simps)

text \<open>
  Claim C5. Reconciliation is idempotent with respect to the list of seen report
  identifiers. An event whose \<^verbatim>\<open>report_id\<close> is in the list already is passed over: the
  loop goes on with the same list and the same states, and on that event alone it returns
  the states and the list it was given. When a run over a batch has returned, a second run
  over the same batch, from the list the first one left, returns no state and leaves the
  list as it is.
\<close>

theorem reconcile_idempotent:
  "(py_get e ''report_id'' = Inr r \<longrightarrow> r \<in> set ids \<longrightarrow>
      get_state_history_loop (e # evs) ids sts = get_state_history_loop evs ids sts \<and>
      get_state_history_loop [e] ids sts = (Inr sts, ids)) \<and>
   (get_state_history_loop evs ids sts = (Inr out, ids1) \<longrightarrow>
      get_state_history_loop evs ids1 [] = (Inr [], ids1))"
proof (intro conjI impI)
  assume r: "py_get e ''report_id'' = Inr r" and seen: "r \<in> set ids"
  from r obtain m where "e = JObj m"
    by (cases e) (auto simp: py_get_def)
  then obtain ty where ty: "py_get e ''type'' = Inr ty"
    by (auto simp: py_get_def)
  show "get_state_history_loop (e # evs) ids sts = get_state_history_loop evs ids sts"
    using ty r seen by (intro loop_seen_skip) auto
  show "get_state_history_loop [e] ids sts = (Inr sts, ids)"
    using ty r seen by (intro loop_all_seen) auto
next
  assume "get_state_history_loop evs ids sts = (Inr out, ids1)"
  then show "get_state_history_loop evs ids1 [] = (Inr [], ids1)"
    by (intro loop_all_seen loop_marks_seen)
qed

theorem reconcile_idempotent_witness:
  "(py_get (JObj (fmap_of_list [(''type'', JStr ''device_type.door_lock''),
        (''report_id'', JNum 1), (''event_type'', JStr ''1801'')])) ''report_id'' = Inr (JNum 1) \<and>
    JNum 1 \<in> set [JNum 1] \<and>
    get_state_history_loop [JObj (fmap_of_list [(''type'', JStr ''device_type.door_lock''),
        (''report_id'', JNum 1), (''event_type'', JStr ''1801'')])] [JNum 1] [JStr ''x''] =
      (Inr [JStr ''x''], [JNum 1])) \<and>
   (get_state_history_loop [JObj (fmap_of_list [(''type'', JStr ''device_type.door_lock''),
        (''report_id'', JNum 1), (''event_type'', JStr ''1801'')])] [] [] =
      (Inr [JStr ''device_status.unlock''], [JNum 1]) \<and>
    get_state_history_loop [JObj (fmap_of_list [(''type'', JStr ''device_type.door_lock''),
        (''report_id'', JNum 1), (''event_type'', JStr ''1801'')])] [JNum 1] [] =
      (Inr [], [JNum 1]))"
proof -
  let ?e = "JObj (fmap_of_list [(''type'', JStr ''device_type.door_lock''),
        (''report_id'', JNum 1), (''event_type'', JStr ''1801'')])"
  have r: "py_get ?e ''report_id'' = Inr (JNum 1)"
    by (simp add: py_get_def fmlookup_of_list)
  have seen: "JNum 1 \<in> set [JNum 1]"
    by simp
  have first: "get_state_history_loop [?e] [] [] = (Inr [JStr ''device_status.unlock''], [JNum 1])"
    by (simp add: eval_simps)
  from reconcile_idempotent [of ?e "JNum 1" "[JNum 1]" "[]" "[JStr ''x'']"] r seen
  have a: "get_state_history_loop [?e] [JNum 1] [JStr ''x''] = (Inr [JStr ''x''], [JNum 1])"
    by blast
  from reconcile_idempotent [of ?e "JNum 1" "[]" "[?e]" "[]" "[JStr ''device_status.unlock'']" "[JNum 1]"]
    first
  have b: "get_state_history_loop [?e] [JNum 1] [] = (Inr [], [JNum 1])"
    by blast
  from r seen first a b show ?thesis by blast
qed

text \<open>
  Claim C7. A door-lock event with the informational code \<^verbatim>\<open>"1602"\<close> whose identifier
  has not been seen produces no state: the loop goes on with the same states, and the
  identifier is appended to the list of seen identifiers, where it stays whatever the
  rest of the batch does.
\<close>

theorem informational_event_marked_seen:
  assumes "py_get e ''type'' = Inr (JStr ''device_type.door_lock'')"
    and "py_get e ''report_id'' = Inr r"
    and "py_get e ''event_type'' = Inr (JStr ''1602'')"
    and "r \<notin> set ids"
  shows "get_state_history_loop (e # evs) ids sts = get_state_history_loop evs (ids @ [r]) sts
    \<and> get_state_history_loop [e] ids sts = (Inr sts, ids @ [r])
    \<and> r \<in> set (snd (get_state_history_loop (e # evs) ids sts))"
proof -
  have step: "get_state_history_loop (e # evs') ids sts =
      get_state_history_loop evs' (ids @ [r]) sts" for evs'
    using assms by (simp add: py_hashable_def dict_lookup_def NON_LOCK_EVENT_def)
  have "r \<in> set (snd (get_state_history_loop evs (ids @ [r]) sts))"
    by (rule loop_ids_mono) simp
  with step [of evs] step [of "[]"] show ?thesis by simp
qed

theorem informational_event_marked_seen_witness:
  "py_get (JObj (fmap_of_list [(''type'', JStr ''device_type.door_lock''),
        (''report_id'', JNum 7), (''event_type'', JStr ''1602'')])) ''type'' =
     Inr (JStr ''device_type.door_lock'') \<and>
   JNum 7 \<notin> set [JNum 3] \<and>
   get_state_history_loop [JObj (fmap_of_list [(''type'', JStr ''device_type.door_lock''),
        (''report_id'', JNum 7), (''event_type'', JStr ''1602'')])] [JNum 3] [] =
     (Inr [], [JNum 3, JNum 7])"
proof -
  let ?e = "JObj (fmap_of_list [(''type'', JStr ''device_type.door_lock''),
        (''report_id'', JNum 7), (''event_type'', JStr ''1602'')])"
  have t: "py_get ?e ''type'' = Inr (JStr ''device_type.door_lock'')"
    and r: "py_get ?e ''report_id'' = Inr (JNum 7)"
    and c: "py_get ?e ''event_type'' = Inr (JStr ''1602'')"
    by (simp_all add: py_get_def fmlookup_of_list)
  have n: "JNum 7 \<notin> set [JNum 3]"
    by simp
  from informational_event_marked_seen [OF t r c n, of "[]" "[]"] t n
  show ?thesis by simp
qed

text \<open>
  Claim C8. Two door-lock events that have not been seen, the first with code
  \<^verbatim>\<open>"1801"\<close> and the second with code \<^verbatim>\<open>"1807"\<close>, give the states unlock and lock,
  in this order, and their identifiers are appended in the same order.
\<close>

theorem reconcile_order:
  assumes "py_get e1 ''type'' = Inr (JStr ''device_type.door_lock'')"
    and "py_get e1 ''report_id'' = Inr r1"
    and "py_get e1 ''event_type'' = Inr (JStr ''1801'')"
    and "py_get e2 ''type'' = Inr (JStr ''device_type.door_lock'')"
    and "py_get e2 ''report_id'' = Inr r2"
    and "py_get e2 ''event_type'' = Inr (JStr ''1807'')"
    and "r1 \<notin> set ids" and "r2 \<notin> set ids" and "r1 \<noteq> r2"
  shows "get_state_history_loop [e1, e2] ids [] =
           (Inr [JStr UNLOCK_STATE, JStr LOCK_STATE], ids @ [r1, r2])"
  using assms
  by (simp add: py_hashable_def dict_lookup_def NON_LOCK_EVENT_def STATE_ENUM_def
      LOCK_STATE_def UNLOCK_STATE_def)

theorem reconcile_order_witness:
  "JNum 1 \<notin> set ([] :: json list) \<and> JNum 1 \<noteq> JNum 2 \<and>
   get_state_history_loop
     [JObj (fmap_of_list [(''type'', JStr ''device_type.door_lock''),
        (''report_id'', JNum 1), (''event_type'', JStr ''1801'')]),
      JObj (fmap_of_list [(''type'', JStr ''device_type.door_lock''),
        (''report_id'', JNum 2), (''event_type'', JStr ''1807'')])] [] [] =
     (Inr [JStr ''device_status.unlock'', JStr ''device_status.lock''], [JNum 1, JNum 2])"
proof -
  let ?e1 = "JObj (fmap_of_list [(''type'', JStr ''device_type.door_lock''),
        (''report_id'', JNum 1), (''event_type'', JStr ''1801'')])"
  let ?e2 = "JObj (fmap_of_list [(''type'', JStr ''device_type.door_lock''),
        (''report_id'', JNum 2), (''event_type'', JStr ''1807'')])"
  have h1: "py_get ?e1 ''type'' = Inr (JStr ''device_type.door_lock'')"
    "py_get ?e1 ''report_id'' = Inr (JNum 1)"
    "py_get ?e1 ''event_type'' = Inr (JStr ''1801'')"
    by (simp_all add: py_get_def fmlookup_of_list)
  have h2: "py_get ?e2 ''type'' = Inr (JStr ''device_type.door_lock'')"
    "py_get ?e2 ''report_id'' = Inr (JNum 2)"
    "py_get ?e2 ''event_type'' = Inr (JStr ''1807'')"
    by (simp_all add: py_get_def fmlookup_of_list)
  have n: "JNum 1 \<notin> set ([] :: json list)" "JNum 2 \<notin> set ([] :: json list)" "JNum 1 \<noteq> JNum 2"
    by simp_all
  from reconcile_order [OF h1 h2 n] n
  show ?thesis by (simp add: LOCK_STATE_def UNLOCK_STATE_def)
qed

text \<open>
  Claim C10. Every element of a sequence that \<^verbatim>\<open>get_state_history\<close> returns is
  \<^verbatim>\<open>"device_status.lock"\<close> or \<^verbatim>\<open>"device_status.unlock"\<close>, and these two strings are
  exactly the values of the mapping table.
\<close>

theorem history_states_range:
  assumes "get_state_history self w = (Inr states, self1, w1)"
  shows "set states \<subseteq> {JStr ''device_status.lock'', JStr ''device_status.unlock''} \<and>
         snd ` set STATE_ENUM = {''device_status.lock'', ''device_status.unlock''}"
proof -
  have "set states \<subseteq> set [] \<union> {JStr LOCK_STATE, JStr UNLOCK_STATE}"
    using assms
    by (auto simp: get_state_history_def http_def
        split: sum.splits option.splits reply.splits if_splits prod.splits
        dest!: loop_states_range)
  moreover have "snd ` set STATE_ENUM = {''device_status.lock'', ''device_status.unlock''}"
    by (auto simp: STATE_ENUM_def)
  ultimately show ?thesis
    by (simp add: LOCK_STATE_def UNLOCK_STATE_def)
qed

theorem history_states_range_witness:
  "fst (get_state_history (front_door (JStr ''device_status.lock'') (session 0 3600))
     (still_world 100 Raises
        (Response 200 (Some (history_body
           [door_event (JNum 1) ''1801'', door_event (JNum 2) ''1602'',
            door_event (JNum 3) ''1816''])))
        Raises)) = Inr [JStr ''device_status.unlock'', JStr ''device_status.lock''] \<and>
   set [JStr ''device_status.unlock'', JStr ''device_status.lock''] \<subseteq>
     {JStr ''device_status.lock'', JStr ''device_status.unlock''}"
proof -
  let ?self = "front_door (JStr ''device_status.lock'') (session 0 3600)"
  let ?w = "still_world 100 Raises
        (Response 200 (Some (history_body
           [door_event (JNum 1) ''1801'', door_event (JNum 2) ''1602'',
            door_event (JNum 3) ''1816''])))
        Raises"
  have hist: "get_state_history ?self ?w =
      (Inr [JStr ''device_status.unlock'', JStr ''device_status.lock''],
       ?self\<lparr>report_ids := [JNum 1, JNum 2, JNum 3]\<rparr>,
       ?w\<lparr>tick := 2, sent := [GetHistory (JStr ''token-1'')]\<rparr>)"
    by (simp add: run_simps)
  from history_states_range [OF hist] hist show ?thesis
    by simp
qed

section \<open>The status fetch and the update cycle\<close>

text \<open>
  \<^verbatim>\<open>.get\<close> with another key succeeds on whatever it succeeded on.
\<close>

lemma py_get_total: "py_get d k = Inr v \<Longrightarrow> \<exists>v'. py_get d k' = Inr v'"
  by (cases d) (auto simp: py_get_def)

text \<open>
  The loop over the devices goes past the entries that read well and bear another name.
\<close>

lemma get_state_loop_no_match:
  assumes "\<forall>d \<in> set devices. \<exists>dn so st. py_get d ''name'' = Inr dn \<and> dn \<noteq> nm \<and>
        py_get d ''status_open'' = Inr so \<and> py_first so = Inr st"
  shows "get_state_loop nm (devices @ rest) = get_state_loop nm rest"
  using assms
proof (induction devices)
  case Nil
  then show ?case by simp
next
  case (Cons d devices)
  from Cons.prems obtain dn so st where d: "py_get d ''name'' = Inr dn" "dn \<noteq> nm"
    "py_get d ''status_open'' = Inr so" "py_first so = Inr st"
    by auto
  from py_get_total [OF d(1)] obtain dev where "py_get d ''device_id'' = Inr dev"
    by blast
  with d Cons show ?case by simp
qed

text \<open>
  It returns the first element of \<^verbatim>\<open>status_open\<close> of the first entry with the name.
\<close>

lemma get_state_loop_found:
  assumes "\<forall>d \<in> set pre. \<exists>dn so st. py_get d ''name'' = Inr dn \<and> dn \<noteq> nm \<and>
        py_get d ''status_open'' = Inr so \<and> py_first so = Inr st"
    and "py_get device ''name'' = Inr nm"
    and "py_get device ''status_open'' = Inr so"
    and "py_first so = Inr raw"
  shows "get_state_loop nm (pre @ device # post) = Inr raw"
proof -
  from py_get_total [OF assms(2)] obtain dev where "py_get device ''device_id'' = Inr dev"
    by blast
  with assms(2-4) have "get_state_loop nm (device # post) = Inr raw"
    by simp
  with get_state_loop_no_match [OF assms(1), of "device # post"] show ?thesis
    by simp
qed

text \<open>
  \<^verbatim>\<open>get_state\<close> after a validation that returned, with a token in the session and a
  response from the server.
\<close>

lemma get_state_request:
  assumes "validate_access_token self w = (Inr (), self1, w1)"
    and "fmlookup (login_data self1) ''access_token'' = Some access_token"
    and "server w1 (tick w1) (GetState access_token) = Response status_code body"
  shows "get_state self w =
     (let w2 = w1\<lparr>tick := Suc (tick w1), sent := sent w1 @ [GetState access_token]\<rparr> in
      if status_code = 200 then
        (case body of
           None \<Rightarrow> (Inl JSONDecodeError, self1, w2)
         | Some data \<Rightarrow>
             (case py_getitem data ''message'' of
                Inl e \<Rightarrow> (Inl e, self1, w2)
              | Inr status \<Rightarrow>
                  if status = JStr ''OK!'' then
                    (case py_get data ''data'' of
                       Inl e \<Rightarrow> (Inl e, self1, w2)
                     | Inr payload \<Rightarrow>
                         (case py_get payload ''device_status'' of
                            Inl e \<Rightarrow> (Inl e, self1, w2)
                          | Inr device_status \<Rightarrow>
                              (case py_iter device_status of
                                 Inl e \<Rightarrow> (Inl e, self1, w2)
                               | Inr devices \<Rightarrow>
                                   (get_state_loop (name self1) devices, self1, w2))))
                  else (Inr JNull, self1, w2)))
      else (Inr JNull, self1, w2))"
  using assms by (simp add: get_state_def http_def Let_def)

text \<open>
  \<^verbatim>\<open>update\<close> when both of its phases return: the state is what \<^verbatim>\<open>get_state\<close> gave.
\<close>

lemma update_status_phase:
  assumes hist: "get_state_history self w = (Inr states, self1, w1)"
    and pub: "update_loop states self1 w1 = (self2, w2)"
    and gs: "get_state self2 w2 = (Inr st, self3, w3)"
  shows "update self w = (Inr (), self3\<lparr>state := st\<rparr>, w3)"
  using assms by (simp add: update_def)

text \<open>
  Claim C3, as the code has it. The claim says that the lock state is retained when the
  status fetch fails. \<^verbatim>\<open>get_state\<close> returns \<^verbatim>\<open>None\<close> then, and \<^verbatim>\<open>update\<close> stores it:
  whatever the state was, when the history phase has returned and the status response
  has a status code other than 200, or a marker other than \<^verbatim>\<open>"OK!"\<close>, or a list of
  devices that read well and of which none bears the stored name, the state after the
  cycle is \<^verbatim>\<open>None\<close>, and \<^verbatim>\<open>is_locked\<close> is false.
\<close>

theorem update_failed_status_gives_None:
  assumes hist: "get_state_history self w = (Inr states, self1, w1)"
    and pub: "update_loop states self1 w1 = (self2, w2)"
    and val: "validate_access_token self2 w2 = (Inr (), self3, w3)"
    and tok: "fmlookup (login_data self3) ''access_token'' = Some access_token"
    and rep: "server w3 (tick w3) (GetState access_token) = Response status_code body"
    and fail: "status_code \<noteq> 200 \<or>
       (\<exists>data status. status_code = 200 \<and> body = Some data \<and>
          py_getitem data ''message'' = Inr status \<and> status \<noteq> JStr ''OK!'') \<or>
       (\<exists>data payload device_status devices. status_code = 200 \<and> body = Some data \<and>
          py_getitem data ''message'' = Inr (JStr ''OK!'') \<and>
          py_get data ''data'' = Inr payload \<and>
          py_get payload ''device_status'' = Inr device_status \<and>
          py_iter device_status = Inr devices \<and>
          (\<forall>d \<in> set devices. \<exists>dn so st. py_get d ''name'' = Inr dn \<and> dn \<noteq> name self \<and>
             py_get d ''status_open'' = Inr so \<and> py_first so = Inr st))"
  shows "update self w =
           (Inr (), self3\<lparr>state := JNull\<rparr>,
            w3\<lparr>tick := Suc (tick w3), sent := sent w3 @ [GetState access_token]\<rparr>) \<and>
         state (fst (snd (update self w))) = JNull \<and>
         \<not> is_locked (fst (snd (update self w)))"
proof -
  let ?w4 = "w3\<lparr>tick := Suc (tick w3), sent := sent w3 @ [GetState access_token]\<rparr>"
  have nm: "name self3 = name self"
    using hist pub val by (rule stored_name)
  from fail have "get_state self2 w2 = (Inr JNull, self3, ?w4)"
  proof (elim disjE exE conjE)
    assume "status_code \<noteq> 200"
    then show ?thesis
      using get_state_request [OF val tok rep] by (simp add: Let_def)
  next
    fix data status
    assume "status_code = 200" "body = Some data"
      "py_getitem data ''message'' = Inr status" "status \<noteq> JStr ''OK!''"
    then show ?thesis
      using get_state_request [OF val tok rep] by (simp add: Let_def)
  next
    fix data payload device_status devices
    assume a: "status_code = 200" "body = Some data"
      "py_getitem data ''message'' = Inr (JStr ''OK!'')"
      "py_get data ''data'' = Inr payload"
      "py_get payload ''device_status'' = Inr device_status"
      "py_iter device_status = Inr devices"
      and none: "\<forall>d \<in> set devices. \<exists>dn so st. py_get d ''name'' = Inr dn \<and>
         dn \<noteq> name self \<and> py_get d ''status_open'' = Inr so \<and> py_first so = Inr st"
    have "get_state_loop (name self) (devices @ []) = get_state_loop (name self) []"
      using none by (rule get_state_loop_no_match)
    then have "get_state_loop (name self) devices = Inr JNull"
      by simp
    with a nm show ?thesis
      using get_state_request [OF val tok rep] by (simp add: Let_def)
  qed
  from update_status_phase [OF hist pub this] show ?thesis
    by (simp add: is_locked_def)
qed

theorem update_failed_status_gives_None_witness:
  "state (front_door (JStr ''device_status.lock'') (session 0 3600)) = JStr ''device_status.lock'' \<and>
   state (fst (snd (update (front_door (JStr ''device_status.lock'') (session 0 3600))
     (still_world 100 Raises
        (Response 200 (Some (history_body [])))
        (Response 200 (Some (status_body [device_entry ''Back door'' ''device_status.lock''])))))))
     = JNull"
proof -
  let ?self = "front_door (JStr ''device_status.lock'') (session 0 3600)"
  let ?devices = "[device_entry ''Back door'' ''device_status.lock'']"
  let ?data = "status_body ?devices"
  let ?w = "still_world 100 Raises (Response 200 (Some (history_body [])))
        (Response 200 (Some ?data))"
  let ?w1 = "?w\<lparr>tick := 2, sent := [GetHistory (JStr ''token-1'')]\<rparr>"
  let ?w3 = "?w1\<lparr>tick := 3\<rparr>"
  have hist: "get_state_history ?self ?w = (Inr [], ?self, ?w1)"
    by (simp add: run_simps)
  have pub: "update_loop [] ?self ?w1 = (?self, ?w1)"
    by simp
  have val: "validate_access_token ?self ?w1 = (Inr (), ?self, ?w3)"
    by (simp add: run_simps)
  have tok: "fmlookup (login_data ?self) ''access_token'' = Some (JStr ''token-1'')"
    by (simp add: run_simps)
  have rep: "server ?w3 (tick ?w3) (GetState (JStr ''token-1'')) = Response 200 (Some ?data)"
    by (simp add: run_simps)
  have msg: "py_getitem ?data ''message'' = Inr (JStr ''OK!'')"
    by (simp add: run_simps)
  have payload: "py_get ?data ''data'' =
      Inr (JObj (fmap_of_list [(''device_status'', JArr ?devices)]))"
    by (simp add: py_get_def status_body_def fmlookup_of_list)
  have ds: "py_get (JObj (fmap_of_list [(''device_status'', JArr ?devices)])) ''device_status'' =
      Inr (JArr ?devices)"
    by (simp add: py_get_def fmlookup_of_list)
  have devs: "py_iter (JArr ?devices) = Inr ?devices"
    by (simp add: py_iter_def)
  have none: "\<forall>d \<in> set ?devices.
      \<exists>dn so st. py_get d ''name'' = Inr dn \<and> dn \<noteq> name ?self \<and>
        py_get d ''status_open'' = Inr so \<and> py_first so = Inr st"
    by (simp add: run_simps)
  have fail: "(200::int) \<noteq> 200 \<or>
       (\<exists>data status. (200::int) = 200 \<and> Some ?data = Some data \<and>
          py_getitem data ''message'' = Inr status \<and> status \<noteq> JStr ''OK!'') \<or>
       (\<exists>data payload device_status devices. (200::int) = 200 \<and> Some ?data = Some data \<and>
          py_getitem data ''message'' = Inr (JStr ''OK!'') \<and>
          py_get data ''data'' = Inr payload \<and>
          py_get payload ''device_status'' = Inr device_status \<and>
          py_iter device_status = Inr devices \<and>
          (\<forall>d \<in> set devices. \<exists>dn so st. py_get d ''name'' = Inr dn \<and> dn \<noteq> name ?self \<and>
             py_get d ''status_open'' = Inr so \<and> py_first so = Inr st))"
    using msg payload ds devs none by blast
  have st: "state ?self = JStr ''device_status.lock''"
    by (simp add: fixture_simps)
  from update_failed_status_gives_None [OF hist pub val tok rep fail] st
  show ?thesis by simp
qed

text \<open>
  The claim C3 as it is stated fails: an entity in the state \<^verbatim>\<open>"device_status.lock"\<close>
  is in another state after a cycle whose status fetch meets a status code 500, a failure
  marker, or a list of devices without its name.
\<close>

theorem update_failed_status_replaces_state:
  "state (fst (snd (update (front_door (JStr ''device_status.lock'') (session 0 3600))
     (still_world 100 Raises
        (Response 200 (Some (history_body [])))
        (Response 500 None)))))
     \<noteq> state (front_door (JStr ''device_status.lock'') (session 0 3600)) \<and>
   state (fst (snd (update (front_door (JStr ''device_status.lock'') (session 0 3600))
     (still_world 100 Raises
        (Response 200 (Some (history_body [])))
        (Response 200 (Some (JObj (fmap_of_list [(''message'', JStr ''Error'')]))))))))
     \<noteq> state (front_door (JStr ''device_status.lock'') (session 0 3600)) \<and>
   state (fst (snd (update (front_door (JStr ''device_status.lock'') (session 0 3600))
     (still_world 100 Raises
        (Response 200 (Some (history_body [])))
        (Response 200 (Some (status_body [device_entry ''Back door'' ''device_status.lock''])))))))
     \<noteq> state (front_door (JStr ''device_status.lock'') (session 0 3600))"
  by (simp add: run_simps)

text \<open>
  Claim C4. In a cycle whose history phase has returned and whose status fetch succeeds
  and finds a device with the stored name (the entries before it read well and bear other
  names), the state after the cycle is the first element of \<^verbatim>\<open>status_open\<close> of that
  device, whatever states the history gave.
\<close>

theorem update_status_authority:
  assumes hist: "get_state_history self w = (Inr states, self1, w1)"
    and pub: "update_loop states self1 w1 = (self2, w2)"
    and val: "validate_access_token self2 w2 = (Inr (), self3, w3)"
    and tok: "fmlookup (login_data self3) ''access_token'' = Some access_token"
    and rep: "server w3 (tick w3) (GetState access_token) = Response 200 (Some data)"
    and msg: "py_getitem data ''message'' = Inr (JStr ''OK!'')"
    and payload: "py_get data ''data'' = Inr payload"
    and ds: "py_get payload ''device_status'' = Inr device_status"
    and devs: "py_iter device_status = Inr (pre @ device # post)"
    and pre: "\<forall>d \<in> set pre. \<exists>dn so st. py_get d ''name'' = Inr dn \<and> dn \<noteq> name self \<and>
        py_get d ''status_open'' = Inr so \<and> py_first so = Inr st"
    and nm: "py_get device ''name'' = Inr (name self)"
    and so: "py_get device ''status_open'' = Inr status_open"
    and raw: "py_first status_open = Inr raw"
  shows "update self w =
           (Inr (), self3\<lparr>state := raw\<rparr>,
            w3\<lparr>tick := Suc (tick w3), sent := sent w3 @ [GetState access_token]\<rparr>) \<and>
         state (fst (snd (update self w))) = raw"
proof -
  have "get_state_loop (name self) (pre @ device # post) = Inr raw"
    using pre nm so raw by (rule get_state_loop_found)
  moreover have "name self3 = name self"
    using hist pub val by (rule stored_name)
  ultimately have "get_state self2 w2 =
      (Inr raw, self3, w3\<lparr>tick := Suc (tick w3), sent := sent w3 @ [GetState access_token]\<rparr>)"
    using get_state_request [OF val tok rep] msg payload ds devs by (simp add: Let_def)
  from update_status_phase [OF hist pub this] show ?thesis by simp
qed

theorem update_status_authority_witness:
  "fst (get_state_history (front_door (JStr ''device_status.unlock'') (session 0 3600))
     (still_world 100 Raises
        (Response 200 (Some (history_body [door_event (JNum 1) ''1807''])))
        (Response 200 (Some (status_body
           [device_entry ''Back door'' ''device_status.lock'',
            device_entry ''Front door'' ''device_status.unlock'']))))) =
     Inr [JStr ''device_status.lock''] \<and>
   state (fst (snd (update (front_door (JStr ''device_status.unlock'') (session 0 3600))
     (still_world 100 Raises
        (Response 200 (Some (history_body [door_event (JNum 1) ''1807''])))
        (Response 200 (Some (status_body
           [device_entry ''Back door'' ''device_status.lock'',
            device_entry ''Front door'' ''device_status.unlock''])))))))
     = JStr ''device_status.unlock''"
proof -
  let ?self = "front_door (JStr ''device_status.unlock'') (session 0 3600)"
  let ?data = "status_body
           [device_entry ''Back door'' ''device_status.lock'',
            device_entry ''Front door'' ''device_status.unlock'']"
  let ?w = "still_world 100 Raises
        (Response 200 (Some (history_body [door_event (JNum 1) ''1807''])))
        (Response 200 (Some ?data))"
  let ?self1 = "?self\<lparr>report_ids := [JNum 1]\<rparr>"
  let ?w1 = "?w\<lparr>tick := 2, sent := [GetHistory (JStr ''token-1'')]\<rparr>"
  let ?self2 = "?self1\<lparr>state := JStr ''device_status.lock''\<rparr>"
  let ?w2 = "?w1\<lparr>written := [JStr ''device_status.lock'']\<rparr>"
  let ?w3 = "?w2\<lparr>tick := 3\<rparr>"
  have hist: "get_state_history ?self ?w = (Inr [JStr ''device_status.lock''], ?self1, ?w1)"
    by (simp add: run_simps)
  have pub: "update_loop [JStr ''device_status.lock''] ?self1 ?w1 = (?self2, ?w2)"
    by (simp add: run_simps)
  have val: "validate_access_token ?self2 ?w2 = (Inr (), ?self2, ?w3)"
    by (simp add: run_simps)
  have tok: "fmlookup (login_data ?self2) ''access_token'' = Some (JStr ''token-1'')"
    by (simp add: run_simps)
  have rep: "server ?w3 (tick ?w3) (GetState (JStr ''token-1'')) = Response 200 (Some ?data)"
    by (simp add: run_simps)
  have msg: "py_getitem ?data ''message'' = Inr (JStr ''OK!'')"
    by (simp add: run_simps)
  have payload: "py_get ?data ''data'' = Inr (JObj (fmap_of_list [(''device_status'',
      JArr [device_entry ''Back door'' ''device_status.lock'',
            device_entry ''Front door'' ''device_status.unlock''])]))"
    by (simp add: py_get_def status_body_def fmlookup_of_list)
  have ds: "py_get (JObj (fmap_of_list [(''device_status'',
      JArr [device_entry ''Back door'' ''device_status.lock'',
            device_entry ''Front door'' ''device_status.unlock''])])) ''device_status'' =
      Inr (JArr [device_entry ''Back door'' ''device_status.lock'',
            device_entry ''Front door'' ''device_status.unlock''])"
    by (simp add: py_get_def fmlookup_of_list)
  have devs: "py_iter (JArr [device_entry ''Back door'' ''device_status.lock'',
            device_entry ''Front door'' ''device_status.unlock'']) =
      Inr ([device_entry ''Back door'' ''device_status.lock''] @
           device_entry ''Front door'' ''device_status.unlock'' # [])"
    by (simp add: py_iter_def)
  have pre: "\<forall>d \<in> set [device_entry ''Back door'' ''device_status.lock''].
      \<exists>dn so st. py_get d ''name'' = Inr dn \<and> dn \<noteq> name ?self \<and>
        py_get d ''status_open'' = Inr so \<and> py_first so = Inr st"
    by (simp add: run_simps)
  have nm: "py_get (device_entry ''Front door'' ''device_status.unlock'') ''name'' = Inr (name ?self)"
    by (simp add: run_simps)
  have so: "py_get (device_entry ''Front door'' ''device_status.unlock'') ''status_open'' =
      Inr (JArr [JStr ''device_status.unlock''])"
    by (simp add: run_simps)
  have raw: "py_first (JArr [JStr ''device_status.unlock'']) = Inr (JStr ''device_status.unlock'')"
    by (simp add: py_first_def)
  from update_status_authority [OF hist pub val tok rep msg payload ds devs pre nm so raw] hist
  show ?thesis by simp
qed

section \<open>The commands\<close>

text \<open>
  Claim C9. \<^verbatim>\<open>lock\<close> and \<^verbatim>\<open>unlock\<close> return without an exception and leave the entity
  (all of its fields) and the world (no request is sent, nothing is published) as they
  were.
\<close>

theorem lock_unlock_no_ops:
  "lock self kwargs w = (Inr (), self, w) \<and> unlock self kwargs w = (Inr (), self, w)"
  by (simp add: lock_def unlock_def)

end
